theory Spec2Isabelle
  imports Complex_Main
begin

section \<open>Data model of \<^verbatim>\<open>applications/spotify/spotify.py\<close>\<close>

text \<open>
  The program runs under MicroPython, whose \<^verbatim>\<open>time.time()\<close> returns whole seconds as an
  integer; a clock reading is an \<^typ>\<open>int\<close>, and every call of \<^verbatim>\<open>time.time()\<close> in the
  source is an explicit argument of the function that makes it.

  A track is the dictionary the remote API returns. The record holds the entries the
  program reads: \<^verbatim>\<open>id\<close> (JSON null is \<open>None\<close>), \<^verbatim>\<open>name\<close> and \<^verbatim>\<open>duration_ms\<close>
  (\<open>None\<close> when the entry is absent, so that \<^verbatim>\<open>.get(key, default)\<close> takes its default),
  the names of the entries of \<^verbatim>\<open>artists\<close> (\<open>None\<close> for an absent list or name), and the
  value of \<^verbatim>\<open>track["album"]["images"][1]["url"]\<close> (\<open>None\<close> when that lookup raises). Such
  a dictionary always has the entry \<^verbatim>\<open>id\<close>, so it is never empty and is truthy.
\<close>

record Track =
  t_id :: "string option"
  t_name :: "string option"
  t_duration_ms :: "int option"
  t_artists :: "string option list option"
  t_image_url :: "string option"

text \<open>Class \<^verbatim>\<open>State\<close>, with the field types \<^verbatim>\<open>State.__init__\<close> gives them.\<close>

record State =
  toggle_leds :: bool
  is_playing :: bool
  repeat :: bool
  shuffle :: bool
  track :: "Track option"
  show_controls :: bool
  exit :: bool
  volume :: int
  is_liked :: bool
  progress_ms :: int
  duration_ms :: int
  last_activity :: int
  is_dimmed :: bool
  latest_fetch :: "int option"

text \<open>\<^verbatim>\<open>State.__init__\<close>; \<open>now\<close> is the reading of \<^verbatim>\<open>time.time()\<close>.\<close>

definition State_init :: "int \<Rightarrow> State" where
  "State_init now =
     \<lparr> toggle_leds = True, is_playing = False, repeat = False, shuffle = False,
       track = None, show_controls = False, exit = False,
       volume = 50, is_liked = False, progress_ms = 0, duration_ms = 0,
       last_activity = now, is_dimmed = False, latest_fetch = None \<rparr>"

text \<open>
  \<^verbatim>\<open>State.copy\<close>: a fresh \<^verbatim>\<open>State()\<close> whose fields are overwritten one by one. The track
  becomes the dictionary \<^verbatim>\<open>{'id': self.track['id']}\<close>, and \<^verbatim>\<open>latest_fetch\<close> is not copied.
\<close>

definition copy :: "int \<Rightarrow> State \<Rightarrow> State" where
  "copy now self =
     (State_init now)
       \<lparr> toggle_leds := toggle_leds self,
         is_playing := is_playing self,
         repeat := repeat self,
         shuffle := shuffle self,
         show_controls := show_controls self,
         exit := exit self,
         track := (case track self of
                     None \<Rightarrow> None
                   | Some t \<Rightarrow> Some \<lparr> t_id = t_id t, t_name = None, t_duration_ms = None,
                                     t_artists = None, t_image_url = None \<rparr>),
         volume := volume self,
         is_liked := is_liked self,
         progress_ms := progress_ms self,
         duration_ms := duration_ms self,
         last_activity := last_activity self,
         is_dimmed := is_dimmed self \<rparr>"

text \<open>The expression \<^verbatim>\<open>(x.track or {}).get('id')\<close>.\<close>

definition track_id :: "Track option \<Rightarrow> string option" where
  "track_id tr = (case tr of None \<Rightarrow> None | Some t \<Rightarrow> t_id t)"

text \<open>
  \<^verbatim>\<open>State.__eq__\<close>. The other operand is \<open>None\<close> for Python's \<^verbatim>\<open>None\<close> (the first
  comparison of the display loop), which the guard of the method answers with \<^verbatim>\<open>False\<close>.
\<close>

definition State_eq :: "State \<Rightarrow> State option \<Rightarrow> bool" where
  "State_eq self other' =
     (case other' of
        None \<Rightarrow> False
      | Some other \<Rightarrow>
          toggle_leds self = toggle_leds other \<and>
          is_playing self = is_playing other \<and>
          repeat self = repeat other \<and>
          shuffle self = shuffle other \<and>
          show_controls self = show_controls other \<and>
          exit self = exit other \<and>
          track_id (track self) = track_id (track other) \<and>
          volume self = volume other \<and>
          is_liked self = is_liked other \<and>
          \<bar>progress_ms self - progress_ms other\<bar> < 5000 \<and>
          is_dimmed self = is_dimmed other)"

text \<open>
  The equality of two snapshots in the words of the specification (section 4.1), to be
  compared with \<^const>\<open>State_eq\<close>: the eight listed fields, the track id and the tolerance.
\<close>

definition spec_equal :: "State \<Rightarrow> State \<Rightarrow> bool" where
  "spec_equal A B =
     (show_controls A = show_controls B \<and>
      is_playing A = is_playing B \<and>
      shuffle A = shuffle B \<and>
      repeat A = repeat B \<and>
      exit A = exit B \<and>
      is_liked A = is_liked B \<and>
      is_dimmed A = is_dimmed B \<and>
      volume A = volume B \<and>
      track_id (track A) = track_id (track B) \<and>
      \<bar>progress_ms A - progress_ms B\<bar> < 5000)"

section \<open>External collaborators\<close>

text \<open>
  An exception of the program: a missing dictionary key, an operation on a value of the
  wrong type, or whatever a call of the remote client raises.
\<close>

datatype error = KeyError string | TypeError | RemoteError string

text \<open>
  The calls an \<^verbatim>\<open>on_press\<close> handler makes on its collaborators: the methods of the remote
  client, and \<^verbatim>\<open>toggle_leds\<close> of the base application.
\<close>

datatype command =
    Pause
  | Play
  | Next
  | Previous
  | ToggleShuffle bool
  | ToggleRepeat bool
  | SetVolume int
  | SaveTrack "string option"
  | RemoveSavedTrack "string option"
  | ToggleLeds bool

datatype query = CurrentPlaying | RecentlyPlayed | CheckSavedTrack "string option"

text \<open>The lines the program prints, by the statement that prints them.\<close>

datatype message =
    Pressed string
  | FailedOnPress error
  | VolumeMsg int
  | LikedMsg bool
  | FailedLiked error
  | GotCurrent string
  | FailedCurrent error
  | GotRecent string
  | FailedRecent error
  | FailedToFetchImage int
  | FetchImageError error

text \<open>What the program does to the world, in the order it does it.\<close>

datatype event =
    Called command
  | Queried query
  | Printed message
  | Backlight rat
  | Shown string
  | Redrawn

text \<open>
  The responses of the remote API, with the entries the program reads. An entry read with
  \<^verbatim>\<open>.get(key, default)\<close> or with \<^verbatim>\<open>resp[key]\<close> is optional, \<open>None\<close> when the response
  lacks it: the first then takes its default and the second raises \<^verbatim>\<open>KeyError\<close>. The
  device's \<^verbatim>\<open>id\<close> is a string or JSON null. The items of the recently-played response
  are given by the track of each entry.
\<close>

record Device =
  d_id :: "string option"
  d_volume_percent :: "int option"

record Playback =
  p_item :: "Track option"
  p_is_playing :: bool
  p_shuffle_state :: bool
  p_repeat_state :: "string option"
  p_device :: "Device option"
  p_progress_ms :: "int option"

text \<open>
  The remote client, the base application and the HTTP library as the program meets them
  during one step: every call either raises (\<open>Some e\<close>, \<open>Inl e\<close>) or returns. A response
  of \<open>None\<close> is Python's \<^verbatim>\<open>None\<close> (no content); \<open>http_get\<close> is \<^verbatim>\<open>requests.get\<close>, which
  returns a status code and a content.
\<close>

record Client =
  command_result :: "command \<Rightarrow> error option"
  current_playing :: "error + Playback option"
  recently_played :: "error + Track list option"
  check_saved_track :: "string option \<Rightarrow> error + bool"
  http_get :: "string \<Rightarrow> error + (int \<times> string)"

section \<open>Control buttons\<close>

datatype handler =
    H_exit_app
  | H_toggle_controls
  | H_play_pause
  | H_next_track
  | H_previous_track
  | H_toggle_shuffle
  | H_toggle_repeat
  | H_toggle_lights
  | H_volume_up
  | H_volume_down
  | H_toggle_like

datatype updater =
    U_show_controls
  | U_always_enabled
  | U_play_pause
  | U_shuffle
  | U_repeat
  | U_light
  | U_like

type_synonym bounds = "int \<times> int \<times> int \<times> int"

text \<open>
  Class \<^verbatim>\<open>ControlButton\<close>. The two functions a button holds are named by \<^typ>\<open>handler\<close> and
  \<^typ>\<open>updater\<close>; the decoded images are left out.
\<close>

record ControlButton =
  name :: string
  enabled :: bool
  icon :: "string option"
  bounds :: bounds
  on_press :: handler
  update :: updater

definition ControlButton_init ::
  "string \<Rightarrow> string list option \<Rightarrow> bounds \<Rightarrow> handler \<Rightarrow> updater \<Rightarrow> ControlButton" where
  "ControlButton_init nm icons bnds h u =
     \<lparr> name = nm, enabled = False,
       icon = (case icons of None \<Rightarrow> None | Some [] \<Rightarrow> None | Some (i # _) \<Rightarrow> Some i),
       bounds = bnds, on_press = h, update = u \<rparr>"

text \<open>
  The application object: its state, the device id of the client's session, its buttons,
  and the trace of what it has done to the world so far.
\<close>

record App =
  state :: State
  session_device_id :: "string option"
  buttons :: "ControlButton list"
  trace :: "event list"

definition emit :: "event list \<Rightarrow> App \<Rightarrow> App" where
  "emit evs a = a\<lparr>trace := trace a @ evs\<rparr>"

subsection \<open>The update functions of \<^verbatim>\<open>setup_buttons\<close>\<close>

definition update_show_controls :: "State \<Rightarrow> ControlButton \<Rightarrow> ControlButton" where
  "update_show_controls st button = button\<lparr>enabled := show_controls st\<rparr>"

definition update_always_enabled :: "State \<Rightarrow> ControlButton \<Rightarrow> ControlButton" where
  "update_always_enabled st button = button\<lparr>enabled := True\<rparr>"

definition update_play_pause :: "State \<Rightarrow> ControlButton \<Rightarrow> ControlButton" where
  "update_play_pause st button =
     button\<lparr>enabled := show_controls st,
            icon := Some (if is_playing st then ''pause.png'' else ''play.png'')\<rparr>"

definition update_shuffle :: "State \<Rightarrow> ControlButton \<Rightarrow> ControlButton" where
  "update_shuffle st button =
     button\<lparr>enabled := show_controls st,
            icon := Some (if shuffle st then ''shuffle_on.png'' else ''shuffle_off.png'')\<rparr>"

definition update_repeat :: "State \<Rightarrow> ControlButton \<Rightarrow> ControlButton" where
  "update_repeat st button =
     button\<lparr>enabled := show_controls st,
            icon := Some (if repeat st then ''repeat_on.png'' else ''repeat_off.png'')\<rparr>"

definition update_light :: "State \<Rightarrow> ControlButton \<Rightarrow> ControlButton" where
  "update_light st button =
     button\<lparr>enabled := show_controls st,
            icon := Some (if toggle_leds st then ''light_on.png'' else ''light_off.png'')\<rparr>"

definition update_like :: "State \<Rightarrow> ControlButton \<Rightarrow> ControlButton" where
  "update_like st button =
     button\<lparr>enabled := show_controls st,
            icon := Some (if is_liked st then ''heart_filled.png'' else ''heart_empty.png'')\<rparr>"

fun call_update :: "updater \<Rightarrow> State \<Rightarrow> ControlButton \<Rightarrow> ControlButton" where
  "call_update U_show_controls = update_show_controls"
| "call_update U_always_enabled = update_always_enabled"
| "call_update U_play_pause = update_play_pause"
| "call_update U_shuffle = update_shuffle"
| "call_update U_repeat = update_repeat"
| "call_update U_light = update_light"
| "call_update U_like = update_like"

subsection \<open>The on-press handlers of \<^verbatim>\<open>setup_buttons\<close>\<close>

text \<open>
  A handler returns the exception it raised, if any, and the application as it left it:
  what a handler has changed before it raises stays changed. \<open>send\<close> is a call of a
  collaborator; \<open>and_then\<close> runs the statements that follow a call, which an exception skips.
\<close>

definition send :: "Client \<Rightarrow> command \<Rightarrow> App \<Rightarrow> error option \<times> App" where
  "send c cmd a = (command_result c cmd, emit [Called cmd] a)"

definition and_then :: "error option \<times> App \<Rightarrow> (App \<Rightarrow> App) \<Rightarrow> error option \<times> App" where
  "and_then r f = (case r of (Some e, a) \<Rightarrow> (Some e, a) | (None, a) \<Rightarrow> (None, f a))"

definition exit_app :: "Client \<Rightarrow> int \<Rightarrow> App \<Rightarrow> error option \<times> App" where
  "exit_app c now a = (None, a\<lparr>state := (state a)\<lparr>exit := True\<rparr>\<rparr>)"

definition toggle_controls :: "Client \<Rightarrow> int \<Rightarrow> App \<Rightarrow> error option \<times> App" where
  "toggle_controls c now a =
     (None, a\<lparr>state := (state a)\<lparr>show_controls := \<not> show_controls (state a),
                                  last_activity := now\<rparr>\<rparr>)"

definition play_pause :: "Client \<Rightarrow> int \<Rightarrow> App \<Rightarrow> error option \<times> App" where
  "play_pause c now a =
     and_then (if is_playing (state a) then send c Pause a else send c Play a)
       (\<lambda>a. a\<lparr>state := (state a)\<lparr>is_playing := \<not> is_playing (state a),
                                  last_activity := now\<rparr>\<rparr>)"

definition next_track :: "Client \<Rightarrow> int \<Rightarrow> App \<Rightarrow> error option \<times> App" where
  "next_track c now a =
     and_then (send c Next a)
       (\<lambda>a. a\<lparr>state := (state a)\<lparr>latest_fetch := None, last_activity := now\<rparr>\<rparr>)"

definition previous_track :: "Client \<Rightarrow> int \<Rightarrow> App \<Rightarrow> error option \<times> App" where
  "previous_track c now a =
     and_then (send c Previous a)
       (\<lambda>a. a\<lparr>state := (state a)\<lparr>latest_fetch := None, last_activity := now\<rparr>\<rparr>)"

definition toggle_shuffle :: "Client \<Rightarrow> int \<Rightarrow> App \<Rightarrow> error option \<times> App" where
  "toggle_shuffle c now a =
     and_then (send c (ToggleShuffle (\<not> shuffle (state a))) a)
       (\<lambda>a. a\<lparr>state := (state a)\<lparr>shuffle := \<not> shuffle (state a), last_activity := now\<rparr>\<rparr>)"

definition toggle_repeat :: "Client \<Rightarrow> int \<Rightarrow> App \<Rightarrow> error option \<times> App" where
  "toggle_repeat c now a =
     and_then (send c (ToggleRepeat (\<not> repeat (state a))) a)
       (\<lambda>a. a\<lparr>state := (state a)\<lparr>repeat := \<not> repeat (state a), last_activity := now\<rparr>\<rparr>)"

definition toggle_lights :: "Client \<Rightarrow> int \<Rightarrow> App \<Rightarrow> error option \<times> App" where
  "toggle_lights c now a =
     and_then (send c (ToggleLeds (\<not> toggle_leds (state a))) a)
       (\<lambda>a. a\<lparr>state := (state a)\<lparr>toggle_leds := \<not> toggle_leds (state a),
                                  last_activity := now\<rparr>\<rparr>)"

definition volume_up :: "Client \<Rightarrow> int \<Rightarrow> App \<Rightarrow> error option \<times> App" where
  "volume_up c now a =
     (let new_volume = min 100 (volume (state a) + 10) in
      and_then (send c (SetVolume new_volume) a)
        (\<lambda>a. emit [Printed (VolumeMsg new_volume)]
                (a\<lparr>state := (state a)\<lparr>volume := new_volume, last_activity := now\<rparr>\<rparr>)))"

definition volume_down :: "Client \<Rightarrow> int \<Rightarrow> App \<Rightarrow> error option \<times> App" where
  "volume_down c now a =
     (let new_volume = max 0 (volume (state a) - 10) in
      and_then (send c (SetVolume new_volume) a)
        (\<lambda>a. emit [Printed (VolumeMsg new_volume)]
                (a\<lparr>state := (state a)\<lparr>volume := new_volume, last_activity := now\<rparr>\<rparr>)))"

definition toggle_like :: "Client \<Rightarrow> int \<Rightarrow> App \<Rightarrow> error option \<times> App" where
  "toggle_like c now a =
     (case track (state a) of
        None \<Rightarrow> (None, a)
      | Some t \<Rightarrow>
          and_then (if is_liked (state a) then send c (RemoveSavedTrack (t_id t)) a
                    else send c (SaveTrack (t_id t)) a)
            (\<lambda>a. emit [Printed (LikedMsg (\<not> is_liked (state a)))]
                    (a\<lparr>state := (state a)\<lparr>is_liked := \<not> is_liked (state a),
                                            last_activity := now\<rparr>\<rparr>)))"

fun call_on_press :: "handler \<Rightarrow> Client \<Rightarrow> int \<Rightarrow> App \<Rightarrow> error option \<times> App" where
  "call_on_press H_exit_app = exit_app"
| "call_on_press H_toggle_controls = toggle_controls"
| "call_on_press H_play_pause = play_pause"
| "call_on_press H_next_track = next_track"
| "call_on_press H_previous_track = previous_track"
| "call_on_press H_toggle_shuffle = toggle_shuffle"
| "call_on_press H_toggle_repeat = toggle_repeat"
| "call_on_press H_toggle_lights = toggle_lights"
| "call_on_press H_volume_up = volume_up"
| "call_on_press H_volume_down = volume_down"
| "call_on_press H_toggle_like = toggle_like"

text \<open>
  \<^verbatim>\<open>buttons_config\<close> and the list built from it, in its order. The width, the height and
  the horizontal centre of the display come from the base application.
\<close>

definition setup_buttons :: "int \<Rightarrow> int \<Rightarrow> int \<Rightarrow> ControlButton list" where
  "setup_buttons width height center_x =
     [ ControlButton_init ''Exit'' (Some [''exit.png'']) (0, 0, 80, 80)
         H_exit_app U_show_controls,
       ControlButton_init ''Next'' (Some [''next.png'']) (center_x + 60, height - 100, 80, 100)
         H_next_track U_show_controls,
       ControlButton_init ''Previous'' (Some [''previous.png''])
         (center_x - 140, height - 100, 80, 100) H_previous_track U_show_controls,
       ControlButton_init ''Play'' (Some [''play.png'', ''pause.png''])
         (center_x - 50, height - 100, 80, 100) H_play_pause U_play_pause,
       ControlButton_init ''Toggle Shuffle'' (Some [''shuffle_on.png'', ''shuffle_off.png''])
         (center_x - 230, height - 100, 80, 100) H_toggle_shuffle U_shuffle,
       ControlButton_init ''Toggle Repeat'' (Some [''repeat_on.png'', ''repeat_off.png''])
         (center_x + 150, height - 100, 80, 100) H_toggle_repeat U_repeat,
       ControlButton_init ''Toggle Light'' (Some [''light_on.png'', ''light_off.png''])
         (width - 100, 0, 100, 80) H_toggle_lights U_light,
       ControlButton_init ''Volume Up'' (Some [''volume_up.png'']) (width - 100, 100, 80, 60)
         H_volume_up U_show_controls,
       ControlButton_init ''Volume Down'' (Some [''volume_down.png''])
         (width - 100, 170, 80, 60) H_volume_down U_show_controls,
       ControlButton_init ''Like'' (Some [''heart_empty.png'', ''heart_filled.png''])
         (20, height - 200, 60, 60) H_toggle_like U_like,
       ControlButton_init ''Toggle Controls'' None (0, 0, width, height)
         H_toggle_controls U_always_enabled ]"

section \<open>The input loop\<close>

text \<open>
  \<^verbatim>\<open>ControlButton.is_pressed\<close>. The touch driver is external: \<open>touch bnds\<close> is its answer
  to \<^verbatim>\<open>Button.is_pressed()\<close> for the button with bounds \<open>bnds\<close> after this iteration's
  \<^verbatim>\<open>touch.poll()\<close>, that is, whether the touch point lies within them.
\<close>

definition is_pressed :: "(bounds \<Rightarrow> bool) \<Rightarrow> ControlButton \<Rightarrow> bool" where
  "is_pressed touch button = (enabled button \<and> touch (bounds button))"

text \<open>
  The body of the \<^verbatim>\<open>try\<close> statement at the dispatch site and its \<^verbatim>\<open>except\<close> clause.
\<close>

definition dispatch :: "Client \<Rightarrow> int \<Rightarrow> ControlButton \<Rightarrow> App \<Rightarrow> App" where
  "dispatch c now button a =
     (case call_on_press (on_press button) c now (emit [Printed (Pressed (name button))] a) of
        (None, a') \<Rightarrow> a'
      | (Some e, a') \<Rightarrow> emit [Printed (FailedOnPress e)] a')"

text \<open>
  The \<^verbatim>\<open>for\<close> loop of \<^verbatim>\<open>touch_handler_loop\<close> over the buttons still to visit: each is
  updated from the state and then tested; the first pressed one is dispatched and ends
  the loop (\<^verbatim>\<open>break\<close>). The result is the buttons as the loop leaves them and the
  application.
\<close>

fun press_scan ::
  "Client \<Rightarrow> int \<Rightarrow> (bounds \<Rightarrow> bool) \<Rightarrow> ControlButton list \<Rightarrow> App \<Rightarrow> ControlButton list \<times> App" where
  "press_scan c now touch [] a = ([], a)"
| "press_scan c now touch (button # rest) a =
     (let button' = call_update (update button) (state a) button in
      if is_pressed touch button' then (button' # rest, dispatch c now button' a)
      else (case press_scan c now touch rest a of (rest', a') \<Rightarrow> (button' # rest', a')))"

text \<open>
  One iteration of \<^verbatim>\<open>touch_handler_loop\<close>, up to the wait for the release of the touch
  (which changes nothing of the application).
\<close>

definition touch_tick :: "Client \<Rightarrow> int \<Rightarrow> (bounds \<Rightarrow> bool) \<Rightarrow> App \<Rightarrow> App" where
  "touch_tick c now touch a =
     (case press_scan c now touch (buttons a) a of (bs, a') \<Rightarrow> a'\<lparr>buttons := bs\<rparr>)"

text \<open>
  \<^verbatim>\<open>touch_handler_loop\<close> over the iterations whose inputs are given: the loop ends when
  \<^verbatim>\<open>state.exit\<close> is set, and is cut where the inputs end.
\<close>

fun touch_handler_loop :: "(Client \<times> int \<times> (bounds \<Rightarrow> bool)) list \<Rightarrow> App \<Rightarrow> App" where
  "touch_handler_loop [] a = a"
| "touch_handler_loop ((c, now, touch) # inputs) a =
     (if exit (state a) then a else touch_handler_loop inputs (touch_tick c now touch a))"

section \<open>Fetching the remote state\<close>

text \<open>
  The local variables of \<^verbatim>\<open>fetch_state\<close>, which are also the tuple it returns, and the
  values it initialises them with.
\<close>

record Fetched =
  f_device_id :: "string option"
  f_current_track :: "Track option"
  f_is_playing :: bool
  f_shuffle :: bool
  f_repeat :: bool
  f_volume :: int
  f_progress_ms :: int
  f_duration_ms :: int

definition fetch_init :: Fetched where
  "fetch_init =
     \<lparr> f_device_id = None, f_current_track = None, f_is_playing = False, f_shuffle = False,
       f_repeat = False, f_volume = 50, f_progress_ms = 0, f_duration_ms = 0 \<rparr>"

text \<open>
  The first \<^verbatim>\<open>try\<close> statement of \<^verbatim>\<open>fetch_state\<close>. The assignments run in the order of the
  source, so an exception leaves the variables assigned before it as they are:
  \<^verbatim>\<open>resp["device"]\<close> raises after the track, \<^verbatim>\<open>is_playing\<close>, \<^verbatim>\<open>shuffle\<close> and \<^verbatim>\<open>repeat\<close> are
  set, and the concatenation of the track's name in the last \<^verbatim>\<open>print\<close> raises after all
  are set.
\<close>

definition fetch_current :: "Client \<Rightarrow> Fetched \<Rightarrow> Fetched \<times> event list" where
  "fetch_current c v =
     (case current_playing c of
        Inl e \<Rightarrow> (v, [Queried CurrentPlaying, Printed (FailedCurrent e)])
      | Inr None \<Rightarrow> (v, [Queried CurrentPlaying])
      | Inr (Some resp) \<Rightarrow>
          (case p_item resp of
             None \<Rightarrow> (v, [Queried CurrentPlaying])
           | Some item \<Rightarrow>
               (let v1 = v\<lparr> f_current_track := Some item,
                            f_is_playing := p_is_playing resp,
                            f_shuffle := p_shuffle_state resp,
                            f_repeat := ((case p_repeat_state resp of
                                            None \<Rightarrow> ''off'' | Some r \<Rightarrow> r) \<noteq> ''off'') \<rparr>
                in case p_device resp of
                     None \<Rightarrow>
                       (v1, [Queried CurrentPlaying, Printed (FailedCurrent (KeyError ''device''))])
                   | Some device \<Rightarrow>
                       (let v2 = v1\<lparr> f_device_id := d_id device,
                                      f_volume := (case d_volume_percent device of
                                                     None \<Rightarrow> 50 | Some p \<Rightarrow> p),
                                      f_progress_ms := (case p_progress_ms resp of
                                                          None \<Rightarrow> 0 | Some p \<Rightarrow> p),
                                      f_duration_ms := (case t_duration_ms item of
                                                          None \<Rightarrow> 0 | Some d \<Rightarrow> d) \<rparr>
                        in case t_name item of
                             None \<Rightarrow>
                               (v2, [Queried CurrentPlaying, Printed (FailedCurrent TypeError)])
                           | Some n \<Rightarrow>
                               (v2, [Queried CurrentPlaying, Printed (GotCurrent n)])))))"

text \<open>The second \<^verbatim>\<open>try\<close> statement of \<^verbatim>\<open>fetch_state\<close>.\<close>

definition fetch_recent :: "Client \<Rightarrow> Fetched \<Rightarrow> Fetched \<times> event list" where
  "fetch_recent c v =
     (case recently_played c of
        Inl e \<Rightarrow> (v, [Queried RecentlyPlayed, Printed (FailedRecent e)])
      | Inr None \<Rightarrow> (v, [Queried RecentlyPlayed])
      | Inr (Some []) \<Rightarrow> (v, [Queried RecentlyPlayed])
      | Inr (Some (first # _)) \<Rightarrow>
          (let v1 = v\<lparr> f_current_track := Some first,
                       f_duration_ms := (case t_duration_ms first of
                                           None \<Rightarrow> 0 | Some d \<Rightarrow> d) \<rparr>
           in case t_name first of
                None \<Rightarrow> (v1, [Queried RecentlyPlayed, Printed (FailedRecent TypeError)])
              | Some n \<Rightarrow> (v1, [Queried RecentlyPlayed, Printed (GotRecent n)])))"

text \<open>
  \<^verbatim>\<open>fetch_state\<close>: the result, \<open>None\<close> for Python's \<^verbatim>\<open>None\<close>, and what the function did
  to the world (its calls of the client and its prints, in order).
\<close>

definition fetch_state :: "Client \<Rightarrow> Fetched option \<times> event list" where
  "fetch_state c =
     (case fetch_current c fetch_init of
        (v1, evs1) \<Rightarrow>
          (case (if f_current_track v1 = None then fetch_recent c v1 else (v1, [])) of
             (v2, evs2) \<Rightarrow>
               (if f_current_track v2 = None then (None, evs1 @ evs2)
                else (Some v2, evs1 @ evs2))))"

section \<open>The display loop\<close>

definition INTERVAL :: int where
  "INTERVAL = 10"

definition INACTIVITY_TIMEOUT :: int where
  "INACTIVITY_TIMEOUT = 30"

text \<open>
  The condition \<^verbatim>\<open>not latest_fetch or time.time() - latest_fetch > INTERVAL\<close>; a reading
  of 0 is falsy like \<^verbatim>\<open>None\<close>.
\<close>

definition fetch_due :: "int \<Rightarrow> State \<Rightarrow> bool" where
  "fetch_due now st =
     (case latest_fetch st of
        None \<Rightarrow> True
      | Some t \<Rightarrow> t = 0 \<or> now - t > INTERVAL)"

text \<open>Python's truth value of a device id: \<^verbatim>\<open>None\<close> and the empty string are falsy.\<close>

definition truthy :: "string option \<Rightarrow> bool" where
  "truthy x = (case x of None \<Rightarrow> False | Some s \<Rightarrow> s \<noteq> [])"

text \<open>The assignment of the returned tuple to the fields of the state.\<close>

definition store_fetched :: "Fetched \<Rightarrow> State \<Rightarrow> State" where
  "store_fetched v st =
     st\<lparr> track := f_current_track v,
         is_playing := f_is_playing v,
         shuffle := f_shuffle v,
         repeat := f_repeat v,
         volume := f_volume v,
         progress_ms := f_progress_ms v,
         duration_ms := f_duration_ms v \<rparr>"

text \<open>
  The check whether the track is liked, whose exception is caught and printed and leaves
  \<^verbatim>\<open>is_liked\<close> as it was.
\<close>

definition check_liked :: "Client \<Rightarrow> App \<Rightarrow> App" where
  "check_liked c a =
     (case track (state a) of
        None \<Rightarrow> a
      | Some t \<Rightarrow>
          (case check_saved_track c (t_id t) of
             Inr liked \<Rightarrow>
               emit [Queried (CheckSavedTrack (t_id t))]
                 (a\<lparr>state := (state a)\<lparr>is_liked := liked\<rparr>\<rparr>)
           | Inl e \<Rightarrow>
               emit [Queried (CheckSavedTrack (t_id t)), Printed (FailedLiked e)] a))"

text \<open>
  The first part of an iteration of \<^verbatim>\<open>display_loop\<close>, up to its first
  \<^verbatim>\<open>await asyncio.sleep(0)\<close>: the conditional fetch. \<open>now_check\<close> and \<open>now_set\<close> are
  the readings of the clock in the condition and in the assignment to \<^verbatim>\<open>latest_fetch\<close>.
\<close>

definition fetch_phase :: "Client \<Rightarrow> int \<Rightarrow> int \<Rightarrow> App \<Rightarrow> App" where
  "fetch_phase c now_check now_set a =
     (if fetch_due now_check (state a) then
        (let a1 = a\<lparr>state := (state a)\<lparr>latest_fetch := Some now_set\<rparr>\<rparr> in
         case fetch_state c of
           (None, evs) \<Rightarrow> emit evs a1
         | (Some v, evs) \<Rightarrow>
             (let a2 = (emit evs a1)\<lparr>state := store_fetched v (state a1)\<rparr>;
                  a3 = (if truthy (f_device_id v)
                        then a2\<lparr>session_device_id := f_device_id v\<rparr> else a2)
              in check_liked c a3))
      else a)"

text \<open>
  The progress estimate. \<^verbatim>\<open>time.time() - self.state.latest_fetch\<close> raises \<^verbatim>\<open>TypeError\<close>
  when \<^verbatim>\<open>latest_fetch\<close> is \<^verbatim>\<open>None\<close>, which nothing in the display loop catches.
\<close>

definition progress_phase :: "int \<Rightarrow> State \<Rightarrow> error + State" where
  "progress_phase now st =
     (if is_playing st \<and> duration_ms st > 0 then
        (case latest_fetch st of
           None \<Rightarrow> Inl TypeError
         | Some fetched_at \<Rightarrow>
             (let time_passed = (now - fetched_at) * 1000 in
              Inr (st\<lparr>progress_ms := min (progress_ms st + time_passed) (duration_ms st)\<rparr>)))
      else Inr st)"

text \<open>The check for inactivity, with the backlight as its effect.\<close>

definition dim_phase :: "int \<Rightarrow> App \<Rightarrow> App" where
  "dim_phase now a =
     (if now - last_activity (state a) > INACTIVITY_TIMEOUT then
        (if \<not> is_dimmed (state a)
         then emit [Backlight 0.3] (a\<lparr>state := (state a)\<lparr>is_dimmed := True\<rparr>\<rparr>)
         else a)
      else
        (if is_dimmed (state a)
         then emit [Backlight 1.0] (a\<lparr>state := (state a)\<lparr>is_dimmed := False\<rparr>\<rparr>)
         else a))"

text \<open>
  \<^verbatim>\<open>get_album_cover\<close>: the image, \<open>None\<close> for Python's \<^verbatim>\<open>None\<close>, and what was printed.
  The lookup of the URL is outside the \<^verbatim>\<open>try\<close> statement and its exception escapes.
\<close>

definition get_album_cover :: "Client \<Rightarrow> Track \<Rightarrow> error + (string option \<times> event list)" where
  "get_album_cover c tr =
     (case t_image_url tr of
        None \<Rightarrow> Inl (KeyError ''images'')
      | Some img_url \<Rightarrow>
          (case http_get c (''https://wsrv.nl/?url='' @ img_url @ ''&w=480&h=480'') of
             Inl e \<Rightarrow> Inr (None, [Printed (FetchImageError e)])
           | Inr (status_code, content) \<Rightarrow>
               (if status_code = 200 then Inr (Some content, [])
                else Inr (None, [Printed (FailedToFetchImage status_code)]))))"

text \<open>
  \<^verbatim>\<open>show_image\<close>: \<^verbatim>\<open>memoryview(None)\<close> raises \<^verbatim>\<open>TypeError\<close>, which the \<^verbatim>\<open>except OSError\<close>
  clause does not catch. The decoding of an image is one event.
\<close>

definition show_image :: "string option \<Rightarrow> App \<Rightarrow> error option \<times> App" where
  "show_image img a =
     (case img of
        None \<Rightarrow> (Some TypeError, a)
      | Some content \<Rightarrow> (None, emit [Shown content] a))"

text \<open>
  The album image, drawn when there is no previous snapshot or its track id differs from
  the state's, and the state has a track.
\<close>

definition image_phase :: "Client \<Rightarrow> State option \<Rightarrow> App \<Rightarrow> error option \<times> App" where
  "image_phase c prev_state a =
     (if (case prev_state of
            None \<Rightarrow> True
          | Some prev \<Rightarrow> track_id (track prev) \<noteq> track_id (track (state a)))
      then
        (case track (state a) of
           None \<Rightarrow> (None, a)
         | Some tr \<Rightarrow>
             (case get_album_cover c tr of
                Inl e \<Rightarrow> (Some e, a)
              | Inr (img, evs) \<Rightarrow> show_image img (emit evs a)))
      else (None, a))"

text \<open>
  \<^verbatim>\<open>write_track\<close>, by the exception that escapes it: with the controls shown and a track
  present, the loop over the characters of a name that is \<^verbatim>\<open>None\<close>, the loop over an
  artists list that is \<^verbatim>\<open>None\<close> and the join of an artist name that is \<^verbatim>\<open>None\<close> raise
  \<^verbatim>\<open>TypeError\<close>. The drawing calls on the display are left out.
\<close>

definition write_track :: "State \<Rightarrow> error option" where
  "write_track st =
     (if show_controls st then
        (case track st of
           None \<Rightarrow> None
         | Some tr \<Rightarrow>
             (case t_name tr of
                None \<Rightarrow> Some TypeError
              | Some track_name \<Rightarrow>
                  (case t_artists tr of
                     None \<Rightarrow> Some TypeError
                   | Some artists \<Rightarrow> if None \<in> set artists then Some TypeError else None)))
      else None)"

text \<open>
  The redraw, gated by \<^verbatim>\<open>prev_state != self.state\<close>, which is the negation of
  \<^verbatim>\<open>__eq__\<close> and true while \<^verbatim>\<open>prev_state\<close> is \<^verbatim>\<open>None\<close>. The buttons are drawn (every icon
  an update function sets is one of the button's images, so no lookup fails), the track
  is written, the display is updated, which is the event, and the snapshot is taken. An
  exception of \<^verbatim>\<open>write_track\<close> escapes before the last two.
\<close>

definition redraw_phase ::
  "int \<Rightarrow> State option \<times> App \<Rightarrow> error option \<times> State option \<times> App" where
  "redraw_phase now pa =
     (case pa of
        (prev_state, a) \<Rightarrow>
          (if (case prev_state of
                 None \<Rightarrow> True
               | Some prev \<Rightarrow> \<not> State_eq prev (Some (state a)))
           then
             (case write_track (state a) of
                Some e \<Rightarrow> (Some e, prev_state, a)
              | None \<Rightarrow> (None, Some (copy now (state a)), emit [Redrawn] a))
           else (None, prev_state, a)))"

text \<open>The readings of the clock during one iteration of the display loop.\<close>

record Readings =
  at_check :: int
  at_set :: int
  at_progress :: int
  at_dim :: int
  at_copy :: int

text \<open>
  One iteration of \<^verbatim>\<open>display_loop\<close>, up to its final sleep. The two tasks are scheduled
  cooperatively: at each \<^verbatim>\<open>await asyncio.sleep(0)\<close> of the iteration the input task runs
  the iterations of \<^verbatim>\<open>touch_handler_loop\<close> whose inputs are given (none, when it is not
  scheduled there), on the same application. The result is the exception that escaped,
  if any, and the previous snapshot and the application as the iteration left them.
\<close>

type_synonym touches = "(Client \<times> int \<times> (bounds \<Rightarrow> bool)) list"

definition display_tick ::
  "Client \<Rightarrow> Readings \<Rightarrow> touches \<Rightarrow> touches \<Rightarrow> State option \<times> App \<Rightarrow>
     error option \<times> State option \<times> App" where
  "display_tick c r at_await1 at_await2 pa =
     (case pa of
        (prev_state, a) \<Rightarrow>
          (let a1 = touch_handler_loop at_await1 (fetch_phase c (at_check r) (at_set r) a) in
           case progress_phase (at_progress r) (state a1) of
             Inl e \<Rightarrow> (Some e, prev_state, a1)
           | Inr st \<Rightarrow>
               (case image_phase c prev_state (dim_phase (at_dim r) (a1\<lparr>state := st\<rparr>)) of
                  (Some e, a3) \<Rightarrow> (Some e, prev_state, a3)
                | (None, a3) \<Rightarrow>
                    redraw_phase (at_copy r) (prev_state, touch_handler_loop at_await2 a3))))"

text \<open>
  \<^verbatim>\<open>display_loop\<close> over the iterations whose inputs are given: the client, the clock, and
  what the input task does at the two awaits of the iteration and during its final
  sleep. The loop ends when \<^verbatim>\<open>state.exit\<close> is set or an exception escapes, and is cut where
  the inputs end.
\<close>

fun display_loop ::
  "(Client \<times> Readings \<times> touches \<times> touches \<times> touches) list \<Rightarrow> State option \<times> App \<Rightarrow>
     error option \<times> State option \<times> App" where
  "display_loop [] pa = (None, pa)"
| "display_loop ((c, r, at_await1, at_await2, at_sleep) # inputs) pa =
     (if exit (state (snd pa)) then (None, pa)
      else (case display_tick c r at_await1 at_await2 pa of
              (Some e, pa') \<Rightarrow> (Some e, pa')
            | (None, prev_state, a) \<Rightarrow>
                display_loop inputs (prev_state, touch_handler_loop at_sleep a)))"

section \<open>Reading the trace\<close>

text \<open>The names of the buttons whose press was dispatched, in order.\<close>

fun pressed_name :: "event \<Rightarrow> string list" where
  "pressed_name (Printed (Pressed n)) = [n]"
| "pressed_name _ = []"

definition pressed_names :: "event list \<Rightarrow> string list" where
  "pressed_names evs = concat (map pressed_name evs)"

text \<open>The queries sent to the remote client, in order.\<close>

fun queried :: "event \<Rightarrow> query list" where
  "queried (Queried q) = [q]"
| "queried _ = []"

definition queries :: "event list \<Rightarrow> query list" where
  "queries evs = concat (map queried evs)"

text \<open>The levels the backlight was set to, in order.\<close>

fun backlight_level :: "event \<Rightarrow> rat list" where
  "backlight_level (Backlight l) = [l]"
| "backlight_level _ = []"

definition backlights :: "event list \<Rightarrow> rat list" where
  "backlights evs = concat (map backlight_level evs)"

section \<open>Example inputs\<close>

text \<open>
  Concrete collaborators and a concrete application on which the functions above are
  evaluated: a client whose every call returns (with nothing playing), a client whose
  every call raises, a touch at a point as the driver reports it to the buttons whose
  bounds have the point strictly inside, the application of a 480 by 480 display with
  the controls shown, a track, a current-playback response with that track and a given
  device entry, a client that returns it, a client whose only call that returns is
  recently-played, an iteration of the display loop during which the clock stands at
  one reading, that application with the track playing (progress 0 of 200000 ms, last
  fetched at 100) and the same dimmed, and what the input task does when it runs one
  iteration in which Next is touched.
\<close>

definition reliable_client :: Client where
  "reliable_client =
     \<lparr> command_result = (\<lambda>cmd. None), current_playing = Inr None,
       recently_played = Inr None, check_saved_track = (\<lambda>i. Inr False),
       http_get = (\<lambda>url. Inr (200, ''jpeg'')) \<rparr>"

definition failing_client :: Client where
  "failing_client =
     \<lparr> command_result = (\<lambda>cmd. Some (RemoteError ''timeout'')),
       current_playing = Inl (RemoteError ''timeout''),
       recently_played = Inl (RemoteError ''timeout''),
       check_saved_track = (\<lambda>i. Inl (RemoteError ''timeout'')),
       http_get = (\<lambda>url. Inl (RemoteError ''timeout'')) \<rparr>"

definition touch_at :: "int \<times> int \<Rightarrow> bounds \<Rightarrow> bool" where
  "touch_at p bnds =
     (case (p, bnds) of
        ((px, py), (x, y, w, h)) \<Rightarrow> x < px \<and> px < x + w \<and> y < py \<and> py < y + h)"

definition started_app :: App where
  "started_app =
     \<lparr> state = (State_init 0)\<lparr>show_controls := True\<rparr>, session_device_id = None,
       buttons = setup_buttons 480 480 240, trace = [] \<rparr>"

definition example_track :: Track where
  "example_track =
     \<lparr> t_id = Some ''track-1'', t_name = Some ''Song'', t_duration_ms = Some 200000,
       t_artists = Some [Some ''Singer''], t_image_url = Some ''https://i.scdn.co/image/1'' \<rparr>"

definition playing_response :: "Device option \<Rightarrow> Playback" where
  "playing_response d =
     \<lparr> p_item = Some example_track, p_is_playing = True, p_shuffle_state = True,
       p_repeat_state = Some ''context'', p_device = d, p_progress_ms = Some 1234 \<rparr>"

definition playing_client :: "Device option \<Rightarrow> Client" where
  "playing_client d = reliable_client\<lparr>current_playing := Inr (Some (playing_response d))\<rparr>"

definition fallback_client :: Client where
  "fallback_client = failing_client\<lparr>recently_played := Inr (Some [example_track])\<rparr>"

definition readings_at :: "int \<Rightarrow> Readings" where
  "readings_at t = \<lparr> at_check = t, at_set = t, at_progress = t, at_dim = t, at_copy = t \<rparr>"

definition playing_app :: App where
  "playing_app =
     started_app\<lparr>state := (state started_app)
       \<lparr>track := Some example_track, is_playing := True, duration_ms := 200000,
        latest_fetch := Some 100\<rparr>\<rparr>"

definition dimmed_app :: App where
  "dimmed_app = playing_app\<lparr>state := (state playing_app)\<lparr>is_dimmed := True\<rparr>\<rparr>"

definition press_next :: "int \<Rightarrow> touches" where
  "press_next t = [(reliable_client, t, touch_at (330, 430))]"

section \<open>Properties of the building blocks\<close>

subsection \<open>Buttons, handlers and the scan\<close>

lemma call_update_fixed:
  "name (call_update u st b) = name b"
  "on_press (call_update u st b) = on_press b"
  "bounds (call_update u st b) = bounds b"
  "update (call_update u st b) = update b"
  by (cases u; simp add: update_show_controls_def update_always_enabled_def
      update_play_pause_def update_shuffle_def update_repeat_def update_light_def
      update_like_def)+

lemma state_emit [simp]: "state (emit evs a) = state a"
  by (simp add: emit_def)

lemma trace_emit [simp]: "trace (emit evs a) = trace a @ evs"
  by (simp add: emit_def)


lemma press_scan_first:
  assumes "\<forall>p \<in> set pre. \<not> is_pressed touch (call_update (update p) (state a) p)"
    and "is_pressed touch (call_update (update b) (state a) b)"
  shows "press_scan c now touch (pre @ b # post) a =
           (map (\<lambda>p. call_update (update p) (state a) p) pre
              @ call_update (update b) (state a) b # post,
            dispatch c now (call_update (update b) (state a) b) a)"
  using assms by (induction pre) (simp_all add: Let_def)

lemma press_scan_none:
  assumes "\<forall>p \<in> set bs. \<not> is_pressed touch (call_update (update p) (state a) p)"
  shows "press_scan c now touch bs a = (map (\<lambda>p. call_update (update p) (state a) p) bs, a)"
  using assms by (induction bs) (simp_all add: Let_def)

lemma pressed_names_append [simp]:
  "pressed_names (xs @ ys) = pressed_names xs @ pressed_names ys"
  by (simp add: pressed_names_def)

lemma pressed_names_simps [simp]:
  "pressed_names [] = []"
  "pressed_names (Printed (Pressed n) # evs) = n # pressed_names evs"
  "pressed_names (Called cmd # evs) = pressed_names evs"
  "pressed_names (Printed (VolumeMsg v) # evs) = pressed_names evs"
  "pressed_names (Printed (LikedMsg l) # evs) = pressed_names evs"
  "pressed_names (Printed (FailedOnPress e) # evs) = pressed_names evs"
  by (simp_all add: pressed_names_def)

lemma handler_pressed_names:
  "pressed_names (trace (snd (call_on_press h c now a))) = pressed_names (trace a)"
  by (cases h)
     (auto simp: exit_app_def toggle_controls_def play_pause_def next_track_def
        previous_track_def toggle_shuffle_def toggle_repeat_def toggle_lights_def
        volume_up_def volume_down_def toggle_like_def send_def and_then_def Let_def
        split: option.splits if_splits)

lemma dispatch_pressed_names:
  "pressed_names (trace (dispatch c now b a)) = pressed_names (trace a) @ [name b]"
proof -
  obtain r a' where h: "call_on_press (on_press b) c now (emit [Printed (Pressed (name b))] a) = (r, a')"
    by (cases "call_on_press (on_press b) c now (emit [Printed (Pressed (name b))] a)")
  have "pressed_names (trace a') = pressed_names (trace a) @ [name b]"
    using handler_pressed_names [of "on_press b" c now "emit [Printed (Pressed (name b))] a"] h
    by simp
  then show ?thesis
    by (cases r) (simp_all add: dispatch_def h)
qed

lemma press_scan_cases:
  "(\<forall>p \<in> set bs. \<not> is_pressed touch (call_update (update p) (state a) p)) \<or>
   (\<exists>pre b post. bs = pre @ b # post \<and>
      (\<forall>p \<in> set pre. \<not> is_pressed touch (call_update (update p) (state a) p)) \<and>
      is_pressed touch (call_update (update b) (state a) b))"
proof (induction bs)
  case Nil
  then show ?case by simp
next
  case (Cons x xs)
  show ?case
  proof (cases "is_pressed touch (call_update (update x) (state a) x)")
    case True
    then have "x # xs = [] @ x # xs \<and>
      (\<forall>p \<in> set []. \<not> is_pressed touch (call_update (update p) (state a) p)) \<and>
      is_pressed touch (call_update (update x) (state a) x)" by simp
    then show ?thesis by blast
  next
    case False
    from Cons.IH show ?thesis
    proof
      assume "\<forall>p \<in> set xs. \<not> is_pressed touch (call_update (update p) (state a) p)"
      with False show ?thesis by simp
    next
      assume "\<exists>pre b post. xs = pre @ b # post \<and>
        (\<forall>p \<in> set pre. \<not> is_pressed touch (call_update (update p) (state a) p)) \<and>
        is_pressed touch (call_update (update b) (state a) b)"
      then obtain pre b post where "xs = pre @ b # post"
        "\<forall>p \<in> set pre. \<not> is_pressed touch (call_update (update p) (state a) p)"
        "is_pressed touch (call_update (update b) (state a) b)" by blast
      with False have "x # xs = (x # pre) @ b # post \<and>
        (\<forall>p \<in> set (x # pre). \<not> is_pressed touch (call_update (update p) (state a) p)) \<and>
        is_pressed touch (call_update (update b) (state a) b)" by simp
      then show ?thesis by blast
    qed
  qed
qed

lemma touch_tick_presses:
  "length (pressed_names (trace (touch_tick c now touch a)))
     \<le> length (pressed_names (trace a)) + 1"
proof -
  from press_scan_cases [of "buttons a" touch a] show ?thesis
  proof
    assume "\<forall>p \<in> set (buttons a). \<not> is_pressed touch (call_update (update p) (state a) p)"
    then show ?thesis
      by (simp add: touch_tick_def press_scan_none)
  next
    assume "\<exists>pre b post. buttons a = pre @ b # post \<and>
      (\<forall>p \<in> set pre. \<not> is_pressed touch (call_update (update p) (state a) p)) \<and>
      is_pressed touch (call_update (update b) (state a) b)"
    then obtain pre b post where "buttons a = pre @ b # post"
      "\<forall>p \<in> set pre. \<not> is_pressed touch (call_update (update p) (state a) p)"
      "is_pressed touch (call_update (update b) (state a) b)" by blast
    then show ?thesis
      by (simp add: touch_tick_def press_scan_first dispatch_pressed_names)
  qed
qed

subsection \<open>Fetching\<close>

lemma fetch_current_no_item:
  assumes "current_playing c = Inl e \<or> current_playing c = Inr None \<or>
           (\<exists>resp. current_playing c = Inr (Some resp) \<and> p_item resp = None)"
  shows "fst (fetch_current c v) = v \<and> queries (snd (fetch_current c v)) = [CurrentPlaying]"
  using assms by (auto simp: fetch_current_def queries_def)

lemma fetch_recent_queries:
  "queries (snd (fetch_recent c v)) = [RecentlyPlayed]"
  by (auto simp: fetch_recent_def queries_def Let_def split: sum.splits option.splits list.splits)

lemma fetch_state_fallback:
  assumes "current_playing c = Inl e \<or> current_playing c = Inr None \<or>
           (\<exists>resp. current_playing c = Inr (Some resp) \<and> p_item resp = None)"
  shows "queries (snd (fetch_state c)) = [CurrentPlaying, RecentlyPlayed] \<and>
         (recently_played c = Inr (Some (first # rest)) \<longrightarrow>
            fst (fetch_state c) =
              Some \<lparr> f_device_id = None, f_current_track = Some first, f_is_playing = False,
                     f_shuffle = False, f_repeat = False, f_volume = 50, f_progress_ms = 0,
                     f_duration_ms = (case t_duration_ms first of None \<Rightarrow> 0 | Some d \<Rightarrow> d) \<rparr>)"
proof -
  obtain evs where cur: "fetch_current c fetch_init = (fetch_init, evs)" "queries evs = [CurrentPlaying]"
    using fetch_current_no_item [OF assms, of fetch_init]
    by (cases "fetch_current c fetch_init") auto
  obtain v2 evs2 where rec: "fetch_recent c fetch_init = (v2, evs2)"
    by (cases "fetch_recent c fetch_init")
  have q2: "queries evs2 = [RecentlyPlayed]"
    using fetch_recent_queries [of c fetch_init] rec by simp
  have qs: "queries (snd (fetch_state c)) = [CurrentPlaying, RecentlyPlayed]"
    using cur rec q2 by (simp add: fetch_state_def fetch_init_def queries_def)
  have res: "recently_played c = Inr (Some (first # rest)) \<longrightarrow>
            fst (fetch_state c) =
              Some \<lparr> f_device_id = None, f_current_track = Some first, f_is_playing = False,
                     f_shuffle = False, f_repeat = False, f_volume = 50, f_progress_ms = 0,
                     f_duration_ms = (case t_duration_ms first of None \<Rightarrow> 0 | Some d \<Rightarrow> d) \<rparr>"
    using cur by (auto simp: fetch_state_def fetch_recent_def fetch_init_def Let_def split: option.splits)
  from qs res show ?thesis by simp
qed

lemma fetch_state_no_track:
  assumes "current_playing c = Inl e \<or> current_playing c = Inr None \<or>
           (\<exists>resp. current_playing c = Inr (Some resp) \<and> p_item resp = None)"
    and "recently_played c = Inl e' \<or> recently_played c = Inr None \<or>
         recently_played c = Inr (Some [])"
  shows "fst (fetch_state c) = None"
proof -
  have cur: "fst (fetch_current c fetch_init) = fetch_init"
    using fetch_current_no_item [OF assms(1), of fetch_init] by simp
  have rec: "fst (fetch_recent c fetch_init) = fetch_init"
    using assms(2) by (auto simp: fetch_recent_def)
  obtain evs1 where c1: "fetch_current c fetch_init = (fetch_init, evs1)"
    using cur by (cases "fetch_current c fetch_init") simp
  obtain evs2 where c2: "fetch_recent c fetch_init = (fetch_init, evs2)"
    using rec by (cases "fetch_recent c fetch_init") simp
  have none: "f_current_track fetch_init = None"
    by (simp add: fetch_init_def)
  show ?thesis
    by (simp add: fetch_state_def c1 c2 none)
qed

lemma fetch_phase_no_result:
  assumes "fst (fetch_state c) = None"
  shows "state (fetch_phase c n1 n2 a) =
           (state a)\<lparr>latest_fetch := latest_fetch (state (fetch_phase c n1 n2 a))\<rparr> \<and>
         session_device_id (fetch_phase c n1 n2 a) = session_device_id a"
  using assms by (cases "fetch_state c") (auto simp: fetch_phase_def emit_def Let_def)

lemma fetch_state_current:
  assumes "current_playing c = Inr (Some resp)" "p_item resp = Some item"
    "p_device resp = Some device"
  shows "fst (fetch_state c) =
     Some \<lparr> f_device_id = d_id device, f_current_track = Some item,
            f_is_playing = p_is_playing resp, f_shuffle = p_shuffle_state resp,
            f_repeat = (case p_repeat_state resp of None \<Rightarrow> False | Some r \<Rightarrow> r \<noteq> ''off''),
            f_volume = (case d_volume_percent device of None \<Rightarrow> 50 | Some p \<Rightarrow> p),
            f_progress_ms = (case p_progress_ms resp of None \<Rightarrow> 0 | Some p \<Rightarrow> p),
            f_duration_ms = (case t_duration_ms item of None \<Rightarrow> 0 | Some d \<Rightarrow> d) \<rparr>"
  using assms
  by (auto simp: fetch_state_def fetch_current_def fetch_init_def Let_def split: option.splits)

lemma fetch_phase_adopts_device:
  assumes "fetch_due n1 (state a)" "fst (fetch_state c) = Some v" "f_device_id v = Some dev" "dev \<noteq> []"
  shows "session_device_id (fetch_phase c n1 n2 a) = Some dev"
  using assms
  by (cases "fetch_state c")
     (auto simp: fetch_phase_def check_liked_def emit_def truthy_def Let_def
           split: option.splits sum.splits)




subsection \<open>Dimming and the display loop\<close>

lemma backlights_append [simp]:
  "backlights (xs @ ys) = backlights xs @ backlights ys"
  by (simp add: backlights_def)

lemma backlights_simps [simp]:
  "backlights [] = []"
  "backlights (Backlight l # evs) = l # backlights evs"
  "backlights (Queried q # evs) = backlights evs"
  "backlights (Printed m # evs) = backlights evs"
  "backlights (Called cmd # evs) = backlights evs"
  "backlights (Redrawn # evs) = backlights evs"
  "backlights (Shown i # evs) = backlights evs"
  by (simp_all add: backlights_def)

lemma dim_phase_enter:
  assumes "now - last_activity (state a) > INACTIVITY_TIMEOUT" "\<not> is_dimmed (state a)"
  shows "dim_phase now a = emit [Backlight 0.3] (a\<lparr>state := (state a)\<lparr>is_dimmed := True\<rparr>\<rparr>)"
  using assms by (simp add: dim_phase_def)

lemma dim_phase_stay:
  assumes "now - last_activity (state a) > INACTIVITY_TIMEOUT" "is_dimmed (state a)"
  shows "dim_phase now a = a"
  using assms by (simp add: dim_phase_def)

lemma dim_phase_leave:
  assumes "\<not> now - last_activity (state a) > INACTIVITY_TIMEOUT" "is_dimmed (state a)"
  shows "dim_phase now a = emit [Backlight 1.0] (a\<lparr>state := (state a)\<lparr>is_dimmed := False\<rparr>\<rparr>)"
  using assms by (simp add: dim_phase_def)












section \<open>The rendering-equality predicate\<close>

lemma State_eq_Some:
  "State_eq A (Some B) =
     (toggle_leds A = toggle_leds B \<and> is_playing A = is_playing B \<and>
      repeat A = repeat B \<and> shuffle A = shuffle B \<and>
      show_controls A = show_controls B \<and> exit A = exit B \<and>
      track_id (track A) = track_id (track B) \<and> volume A = volume B \<and>
      is_liked A = is_liked B \<and> \<bar>progress_ms A - progress_ms B\<bar> < 5000 \<and>
      is_dimmed A = is_dimmed B)"
  by (simp add: State_eq_def)

text \<open>
  C1, as the claim states it, fails: two snapshots that differ only in \<^verbatim>\<open>toggle_leds\<close>
  agree on every field of the claim's list, and \<^verbatim>\<open>__eq__\<close> answers \<^verbatim>\<open>False\<close>.
\<close>

theorem State_eq_toggle_leds_counterexample:
  "spec_equal (State_init 0) ((State_init 0)\<lparr>toggle_leds := False\<rparr>) \<and>
   \<not> State_eq (State_init 0) (Some ((State_init 0)\<lparr>toggle_leds := False\<rparr>))"
  by (simp add: spec_equal_def State_eq_def State_init_def)

text \<open>
  C1 (amended): \<^verbatim>\<open>__eq__\<close> holds of two snapshots exactly when \<^verbatim>\<open>toggle_leds\<close>,
  \<^verbatim>\<open>show_controls\<close>, \<^verbatim>\<open>is_playing\<close>, \<^verbatim>\<open>shuffle\<close>, \<^verbatim>\<open>repeat\<close>, \<^verbatim>\<open>exit\<close>, \<^verbatim>\<open>is_liked\<close>,
  \<^verbatim>\<open>is_dimmed\<close> and \<^verbatim>\<open>volume\<close> are pairwise identical, the track ids are identical (an
  absent track counted as id null) and the progress values differ by less than 5000 ms.
  For otherwise identical snapshots a progress delta of 4999 ms is equal and one of 5000 ms
  is not. The remaining fields (\<^verbatim>\<open>duration_ms\<close>, \<^verbatim>\<open>last_activity\<close>, \<^verbatim>\<open>latest_fetch\<close>, and the
  track's entries other than its id) do not affect the result.
\<close>

theorem State_eq_characterisation:
  "(State_eq A (Some B) =
      (toggle_leds A = toggle_leds B \<and> show_controls A = show_controls B \<and>
       is_playing A = is_playing B \<and> shuffle A = shuffle B \<and> repeat A = repeat B \<and>
       exit A = exit B \<and> is_liked A = is_liked B \<and> is_dimmed A = is_dimmed B \<and>
       volume A = volume B \<and> track_id (track A) = track_id (track B) \<and>
       \<bar>progress_ms A - progress_ms B\<bar> < 5000)) \<and>
   State_eq (A\<lparr>progress_ms := p\<rparr>) (Some (A\<lparr>progress_ms := p + 4999\<rparr>)) \<and>
   \<not> State_eq (A\<lparr>progress_ms := p\<rparr>) (Some (A\<lparr>progress_ms := p + 5000\<rparr>)) \<and>
   State_eq (A\<lparr>duration_ms := d, last_activity := l, latest_fetch := f\<rparr>)
            (Some (B\<lparr>duration_ms := d', last_activity := l', latest_fetch := f'\<rparr>))
     = State_eq A (Some B) \<and>
   State_eq (A\<lparr>track := Some (t\<lparr>t_name := n, t_duration_ms := m, t_artists := ar, t_image_url := i\<rparr>)\<rparr>)
            (Some (B\<lparr>track := Some (u\<lparr>t_name := n', t_duration_ms := m', t_artists := ar', t_image_url := i'\<rparr>)\<rparr>))
     = State_eq (A\<lparr>track := Some t\<rparr>) (Some (B\<lparr>track := Some u\<rparr>))"
proof -
  have iff: "State_eq A (Some B) =
      (toggle_leds A = toggle_leds B \<and> show_controls A = show_controls B \<and>
       is_playing A = is_playing B \<and> shuffle A = shuffle B \<and> repeat A = repeat B \<and>
       exit A = exit B \<and> is_liked A = is_liked B \<and> is_dimmed A = is_dimmed B \<and>
       volume A = volume B \<and> track_id (track A) = track_id (track B) \<and>
       \<bar>progress_ms A - progress_ms B\<bar> < 5000)"
    unfolding State_eq_Some by blast
  have near: "State_eq (A\<lparr>progress_ms := p\<rparr>) (Some (A\<lparr>progress_ms := p + 4999\<rparr>))"
    by (simp add: State_eq_Some)
  have far: "\<not> State_eq (A\<lparr>progress_ms := p\<rparr>) (Some (A\<lparr>progress_ms := p + 5000\<rparr>))"
    by (simp add: State_eq_Some)
  have frame: "State_eq (A\<lparr>duration_ms := d, last_activity := l, latest_fetch := f\<rparr>)
            (Some (B\<lparr>duration_ms := d', last_activity := l', latest_fetch := f'\<rparr>))
     = State_eq A (Some B)"
    by (simp add: State_eq_Some)
  have entries: "State_eq (A\<lparr>track := Some (t\<lparr>t_name := n, t_duration_ms := m, t_artists := ar, t_image_url := i\<rparr>)\<rparr>)
            (Some (B\<lparr>track := Some (u\<lparr>t_name := n', t_duration_ms := m', t_artists := ar', t_image_url := i'\<rparr>)\<rparr>))
     = State_eq (A\<lparr>track := Some t\<rparr>) (Some (B\<lparr>track := Some u\<rparr>))"
    by (simp add: State_eq_Some track_id_def)
  from iff near far frame entries show ?thesis by blast
qed

theorem State_eq_characterisation_witness:
  "State_eq ((State_init 7)\<lparr>progress_ms := 1000\<rparr>)
            (Some ((State_init 7)\<lparr>progress_ms := 5999\<rparr>)) \<and>
   \<not> State_eq ((State_init 7)\<lparr>progress_ms := 1000\<rparr>)
              (Some ((State_init 7)\<lparr>progress_ms := 6000\<rparr>))"
  using State_eq_characterisation [of "State_init 7" "State_init 7" 1000]
  by simp

text \<open>
  C9: \<^verbatim>\<open>__eq__\<close> is reflexive and symmetric on snapshots.
\<close>

theorem State_eq_reflexive_symmetric:
  "State_eq s (Some s) \<and> State_eq A (Some B) = State_eq B (Some A)"
proof -
  have "\<bar>progress_ms A - progress_ms B\<bar> = \<bar>progress_ms B - progress_ms A\<bar>"
    by (rule abs_minus_commute)
  then have "State_eq A (Some B) = State_eq B (Some A)"
    unfolding State_eq_Some by (simp add: eq_commute)
  moreover have "State_eq s (Some s)"
    by (simp add: State_eq_Some)
  ultimately show ?thesis by simp
qed

text \<open>
  C10: \<^verbatim>\<open>__eq__\<close> is not transitive. Three snapshots that differ only in their progress,
  0, 4000 and 8000 ms, are equal step by step and unequal end to end.
\<close>

theorem State_eq_not_transitive:
  "State_eq (s\<lparr>progress_ms := 0\<rparr>) (Some (s\<lparr>progress_ms := 4000\<rparr>)) \<and>
   State_eq (s\<lparr>progress_ms := 4000\<rparr>) (Some (s\<lparr>progress_ms := 8000\<rparr>)) \<and>
   \<not> State_eq (s\<lparr>progress_ms := 0\<rparr>) (Some (s\<lparr>progress_ms := 8000\<rparr>))"
  by (simp add: State_eq_Some)

section \<open>The input loop: dispatch\<close>

text \<open>
  C8: an iteration of the input loop dispatches at most one \<^verbatim>\<open>on_press\<close>. The buttons are
  scanned in the order of the list; the first one that is enabled (after its own update)
  and pressed is dispatched, and the buttons after it are neither updated, tested nor
  fired in that iteration. Of two enabled buttons that are both pressed, only the earlier
  one fires.
\<close>

theorem touch_tick_first_match:
  "length (pressed_names (trace (touch_tick c now touch a)))
     \<le> length (pressed_names (trace a)) + 1 \<and>
   (buttons a = pre @ b # post \<and>
    (\<forall>p \<in> set pre. \<not> is_pressed touch (call_update (update p) (state a) p)) \<and>
    is_pressed touch (call_update (update b) (state a) b) \<longrightarrow>
      touch_tick c now touch a =
        (dispatch c now (call_update (update b) (state a) b) a)
          \<lparr>buttons := map (\<lambda>p. call_update (update p) (state a) p) pre
                        @ call_update (update b) (state a) b # post\<rparr> \<and>
      pressed_names (trace (touch_tick c now touch a)) = pressed_names (trace a) @ [name b]) \<and>
   (buttons a = [b1, b2] \<and>
    is_pressed touch (call_update (update b1) (state a) b1) \<and>
    is_pressed touch (call_update (update b2) (state a) b2) \<longrightarrow>
      pressed_names (trace (touch_tick c now touch a)) = pressed_names (trace a) @ [name b1] \<and>
      buttons (touch_tick c now touch a) = [call_update (update b1) (state a) b1, b2])"
proof -
  have first: "touch_tick c now touch a =
        (dispatch c now (call_update (update x) (state a) x) a)
          \<lparr>buttons := map (\<lambda>p. call_update (update p) (state a) p) xs
                        @ call_update (update x) (state a) x # ys\<rparr> \<and>
      pressed_names (trace (touch_tick c now touch a)) = pressed_names (trace a) @ [name x]"
    if "buttons a = xs @ x # ys"
      and "\<forall>p \<in> set xs. \<not> is_pressed touch (call_update (update p) (state a) p)"
      and "is_pressed touch (call_update (update x) (state a) x)" for xs x ys
    using that
    by (simp add: touch_tick_def press_scan_first dispatch_pressed_names call_update_fixed)
  have two: "pressed_names (trace (touch_tick c now touch a)) = pressed_names (trace a) @ [name b1] \<and>
      buttons (touch_tick c now touch a) = [call_update (update b1) (state a) b1, b2]"
    if "buttons a = [b1, b2]" "is_pressed touch (call_update (update b1) (state a) b1)"
  proof -
    have "buttons a = [] @ b1 # [b2]"
      using that(1) by simp
    moreover have "\<forall>p \<in> set []. \<not> is_pressed touch (call_update (update p) (state a) p)"
      by simp
    ultimately have "touch_tick c now touch a =
        (dispatch c now (call_update (update b1) (state a) b1) a)
          \<lparr>buttons := map (\<lambda>p. call_update (update p) (state a) p) []
                        @ call_update (update b1) (state a) b1 # [b2]\<rparr> \<and>
      pressed_names (trace (touch_tick c now touch a)) = pressed_names (trace a) @ [name b1]"
      using that(2) by (rule first)
    then have tick: "touch_tick c now touch a =
        (dispatch c now (call_update (update b1) (state a) b1) a)
          \<lparr>buttons := map (\<lambda>p. call_update (update p) (state a) p) []
                        @ call_update (update b1) (state a) b1 # [b2]\<rparr>"
      and names: "pressed_names (trace (touch_tick c now touch a)) = pressed_names (trace a) @ [name b1]"
      by blast+
    from tick have "buttons (touch_tick c now touch a) = [call_update (update b1) (state a) b1, b2]"
      by simp
    with names show ?thesis by blast
  qed
  from touch_tick_presses [of c now touch a] first [of pre b post] two
  show ?thesis by blast
qed

theorem touch_tick_first_match_witness:
  "pressed_names (trace (touch_tick reliable_client 5 (touch_at (230, 430)) started_app))
     = [''Play''] \<and>
   take 5 (map enabled (buttons (touch_tick reliable_client 5 (touch_at (230, 430)) started_app)))
     = [True, True, True, True, False]"
proof -
  let ?pre = "take 3 (setup_buttons 480 480 240)"
  let ?b = "setup_buttons 480 480 240 ! 3"
  let ?post = "drop 4 (setup_buttons 480 480 240)"
  have split: "buttons started_app = ?pre @ ?b # ?post"
    by (simp add: started_app_def setup_buttons_def)
  have misses: "\<forall>p \<in> set ?pre.
      \<not> is_pressed (touch_at (230, 430)) (call_update (update p) (state started_app) p)"
    by (simp add: started_app_def setup_buttons_def ControlButton_init_def is_pressed_def
        touch_at_def update_show_controls_def)
  have hit: "is_pressed (touch_at (230, 430)) (call_update (update ?b) (state started_app) ?b)"
    by (simp add: started_app_def setup_buttons_def ControlButton_init_def is_pressed_def
        touch_at_def update_play_pause_def State_init_def)
  from touch_tick_first_match
         [of reliable_client 5 "touch_at (230, 430)" started_app ?pre ?b ?post] split misses hit
  have tick: "touch_tick reliable_client 5 (touch_at (230, 430)) started_app =
        (dispatch reliable_client 5 (call_update (update ?b) (state started_app) ?b) started_app)
          \<lparr>buttons := map (\<lambda>p. call_update (update p) (state started_app) p) ?pre
                        @ call_update (update ?b) (state started_app) ?b # ?post\<rparr>"
    and names: "pressed_names (trace (touch_tick reliable_client 5 (touch_at (230, 430)) started_app))
       = pressed_names (trace started_app) @ [name ?b]"
    by blast+
  have "pressed_names (trace (touch_tick reliable_client 5 (touch_at (230, 430)) started_app))
     = [''Play'']"
    unfolding names by (simp add: started_app_def setup_buttons_def ControlButton_init_def)
  moreover have "take 5 (map enabled (buttons (touch_tick reliable_client 5 (touch_at (230, 430)) started_app)))
     = [True, True, True, True, False]"
    unfolding tick
    by (simp add: started_app_def setup_buttons_def ControlButton_init_def State_init_def
        update_show_controls_def update_play_pause_def)
  ultimately show ?thesis by simp
qed




section \<open>The remote state\<close>

text \<open>
  C3, as the claim states it, fails. A current-playback response with an item and without
  a \<^verbatim>\<open>device\<close> entry raises \<^verbatim>\<open>KeyError\<close> after the track, \<^verbatim>\<open>is_playing\<close>, \<^verbatim>\<open>shuffle\<close> and
  \<^verbatim>\<open>repeat\<close> are set: the result then has progress 0 and duration 0, not the response's
  progress (1234) and the track's duration (200000). And a device id that is the empty
  string is not null, yet the display loop does not store it in the session.
\<close>

theorem fetch_state_current_counterexample:
  "p_progress_ms (playing_response None) = Some 1234 \<and>
   t_duration_ms example_track = Some 200000 \<and>
   fst (fetch_state (playing_client None)) =
     Some \<lparr> f_device_id = None, f_current_track = Some example_track, f_is_playing = True,
            f_shuffle = True, f_repeat = True, f_volume = 50, f_progress_ms = 0,
            f_duration_ms = 0 \<rparr> \<and>
   session_device_id
     (fetch_phase (playing_client (Some \<lparr> d_id = Some [], d_volume_percent = Some 40 \<rparr>))
        100 100 started_app) = None"
  by (simp add: fetch_phase_def fetch_due_def fetch_state_def fetch_current_def fetch_init_def
      playing_client_def playing_response_def reliable_client_def example_track_def
      started_app_def State_init_def truthy_def check_liked_def emit_def store_fetched_def
      Let_def)

text \<open>
  C3 (amended): for every current-playback response that succeeds with a present item and
  carries a device entry, \<^verbatim>\<open>fetch_state\<close> returns: the item as track, \<^verbatim>\<open>is_playing\<close> and
  \<^verbatim>\<open>shuffle\<close> of the response, \<^verbatim>\<open>repeat\<close> true iff \<^verbatim>\<open>repeat_state\<close> is present and other
  than "off", the device's id, the device's \<^verbatim>\<open>volume_percent\<close> or 50, the response's
  \<^verbatim>\<open>progress_ms\<close> or 0, the track's \<^verbatim>\<open>duration_ms\<close> or 0. When the display loop fetches and
  that device id is neither null nor empty, it stores it in the client's session.
\<close>

theorem fetch_state_current_mapping:
  "current_playing c = Inr (Some resp) \<and> p_item resp = Some item \<and>
   p_device resp = Some device \<longrightarrow>
     fst (fetch_state c) =
       Some \<lparr> f_device_id = d_id device, f_current_track = Some item,
              f_is_playing = p_is_playing resp, f_shuffle = p_shuffle_state resp,
              f_repeat = (case p_repeat_state resp of None \<Rightarrow> False | Some r \<Rightarrow> r \<noteq> ''off''),
              f_volume = (case d_volume_percent device of None \<Rightarrow> 50 | Some p \<Rightarrow> p),
              f_progress_ms = (case p_progress_ms resp of None \<Rightarrow> 0 | Some p \<Rightarrow> p),
              f_duration_ms = (case t_duration_ms item of None \<Rightarrow> 0 | Some d \<Rightarrow> d) \<rparr> \<and>
     (fetch_due now_check (state a) \<and> d_id device = Some dev \<and> dev \<noteq> [] \<longrightarrow>
        session_device_id (fetch_phase c now_check now_set a) = Some dev)"
proof (intro impI, elim conjE)
  assume cur: "current_playing c = Inr (Some resp)" and item: "p_item resp = Some item"
    and dev: "p_device resp = Some device"
  let ?v = "\<lparr> f_device_id = d_id device, f_current_track = Some item,
              f_is_playing = p_is_playing resp, f_shuffle = p_shuffle_state resp,
              f_repeat = (case p_repeat_state resp of None \<Rightarrow> False | Some r \<Rightarrow> r \<noteq> ''off''),
              f_volume = (case d_volume_percent device of None \<Rightarrow> 50 | Some p \<Rightarrow> p),
              f_progress_ms = (case p_progress_ms resp of None \<Rightarrow> 0 | Some p \<Rightarrow> p),
              f_duration_ms = (case t_duration_ms item of None \<Rightarrow> 0 | Some d \<Rightarrow> d) \<rparr>"
  have res: "fst (fetch_state c) = Some ?v"
    using cur item dev by (rule fetch_state_current)
  have "session_device_id (fetch_phase c now_check now_set a) = Some dev"
    if "fetch_due now_check (state a)" "d_id device = Some dev" "dev \<noteq> []"
    using fetch_phase_adopts_device [OF that(1) res, of dev now_set] that by simp
  with res show "fst (fetch_state c) = Some ?v \<and>
     (fetch_due now_check (state a) \<and> d_id device = Some dev \<and> dev \<noteq> [] \<longrightarrow>
        session_device_id (fetch_phase c now_check now_set a) = Some dev)"
    by blast
qed

theorem fetch_state_current_mapping_witness:
  "fst (fetch_state (playing_client (Some \<lparr> d_id = Some ''dev-1'', d_volume_percent = None \<rparr>))) =
     Some \<lparr> f_device_id = Some ''dev-1'', f_current_track = Some example_track,
            f_is_playing = True, f_shuffle = True, f_repeat = True, f_volume = 50,
            f_progress_ms = 1234, f_duration_ms = 200000 \<rparr> \<and>
   session_device_id
     (fetch_phase (playing_client (Some \<lparr> d_id = Some ''dev-1'', d_volume_percent = None \<rparr>))
        100 100 started_app) = Some ''dev-1''"
proof -
  let ?d = "\<lparr> d_id = Some ''dev-1'', d_volume_percent = None \<rparr>"
  have cur: "current_playing (playing_client (Some ?d)) = Inr (Some (playing_response (Some ?d)))"
    by (simp add: playing_client_def)
  have item: "p_item (playing_response (Some ?d)) = Some example_track"
    and dev: "p_device (playing_response (Some ?d)) = Some ?d"
    by (simp_all add: playing_response_def)
  have due: "fetch_due 100 (state started_app)"
    by (simp add: fetch_due_def started_app_def State_init_def)
  from fetch_state_current_mapping
         [of "playing_client (Some ?d)" "playing_response (Some ?d)" example_track ?d
             100 started_app "''dev-1''" 100]
       cur item dev due
  show ?thesis
    by (simp add: playing_response_def example_track_def)
qed

text \<open>
  C4: when the current-playback call raises, returns nothing or returns no item,
  \<^verbatim>\<open>fetch_state\<close> goes on to call recently-played; when that call returns at least one
  entry, the result has the first entry's track, that track's duration, and every
  transport field at its default (not playing, no shuffle, no repeat, volume 50,
  progress 0, no device id).
\<close>

theorem fetch_state_falls_back:
  "current_playing c = Inl e \<or> current_playing c = Inr None \<or>
   (\<exists>resp. current_playing c = Inr (Some resp) \<and> p_item resp = None) \<longrightarrow>
     queries (snd (fetch_state c)) = [CurrentPlaying, RecentlyPlayed] \<and>
     (recently_played c = Inr (Some (first # rest)) \<longrightarrow>
        fst (fetch_state c) =
          Some \<lparr> f_device_id = None, f_current_track = Some first, f_is_playing = False,
                 f_shuffle = False, f_repeat = False, f_volume = 50, f_progress_ms = 0,
                 f_duration_ms = (case t_duration_ms first of None \<Rightarrow> 0 | Some d \<Rightarrow> d) \<rparr>)"
  using fetch_state_fallback [of c e first rest] by blast

theorem fetch_state_falls_back_witness:
  "queries (snd (fetch_state fallback_client)) = [CurrentPlaying, RecentlyPlayed] \<and>
   fst (fetch_state fallback_client) =
     Some \<lparr> f_device_id = None, f_current_track = Some example_track, f_is_playing = False,
            f_shuffle = False, f_repeat = False, f_volume = 50, f_progress_ms = 0,
            f_duration_ms = 200000 \<rparr>"
proof -
  have cur: "current_playing fallback_client = Inl (RemoteError ''timeout'')"
    and rec: "recently_played fallback_client = Inr (Some (example_track # []))"
    by (simp_all add: fallback_client_def failing_client_def)
  have d: "t_duration_ms example_track = Some 200000"
    by (simp add: example_track_def)
  from fetch_state_falls_back [of fallback_client "RemoteError ''timeout''" example_track "[]"]
       cur rec
  show ?thesis by (simp add: d)
qed

text \<open>
  C5: when neither call yields a track, \<^verbatim>\<open>fetch_state\<close> returns \<^verbatim>\<open>None\<close>, and the conditional
  fetch of the display loop changes nothing of the state but \<^verbatim>\<open>latest_fetch\<close>: the track,
  \<^verbatim>\<open>is_playing\<close>, \<^verbatim>\<open>shuffle\<close>, \<^verbatim>\<open>repeat\<close>, \<^verbatim>\<open>volume\<close>, \<^verbatim>\<open>progress_ms\<close>, \<^verbatim>\<open>duration_ms\<close> and the
  session's device id are as before.
\<close>

theorem fetch_state_no_track_keeps_state:
  "(current_playing c = Inl e \<or> current_playing c = Inr None \<or>
    (\<exists>resp. current_playing c = Inr (Some resp) \<and> p_item resp = None)) \<and>
   (recently_played c = Inl e' \<or> recently_played c = Inr None \<or>
    recently_played c = Inr (Some [])) \<longrightarrow>
     fst (fetch_state c) = None \<and>
     state (fetch_phase c now_check now_set a) =
       (state a)\<lparr>latest_fetch := latest_fetch (state (fetch_phase c now_check now_set a))\<rparr> \<and>
     track (state (fetch_phase c now_check now_set a)) = track (state a) \<and>
     is_playing (state (fetch_phase c now_check now_set a)) = is_playing (state a) \<and>
     shuffle (state (fetch_phase c now_check now_set a)) = shuffle (state a) \<and>
     repeat (state (fetch_phase c now_check now_set a)) = repeat (state a) \<and>
     volume (state (fetch_phase c now_check now_set a)) = volume (state a) \<and>
     progress_ms (state (fetch_phase c now_check now_set a)) = progress_ms (state a) \<and>
     duration_ms (state (fetch_phase c now_check now_set a)) = duration_ms (state a) \<and>
     session_device_id (fetch_phase c now_check now_set a) = session_device_id a"
proof (intro impI, elim conjE)
  assume cur: "current_playing c = Inl e \<or> current_playing c = Inr None \<or>
    (\<exists>resp. current_playing c = Inr (Some resp) \<and> p_item resp = None)"
    and rec: "recently_played c = Inl e' \<or> recently_played c = Inr None \<or>
    recently_played c = Inr (Some [])"
  let ?a = "fetch_phase c now_check now_set a"
  have none: "fst (fetch_state c) = None"
    using cur rec by (rule fetch_state_no_track)
  have st: "state ?a = (state a)\<lparr>latest_fetch := latest_fetch (state ?a)\<rparr>"
    and dev: "session_device_id ?a = session_device_id a"
    using fetch_phase_no_result [OF none, of now_check now_set a] by simp_all
  have "track (state ?a) = track (state a)" "is_playing (state ?a) = is_playing (state a)"
    "shuffle (state ?a) = shuffle (state a)" "repeat (state ?a) = repeat (state a)"
    "volume (state ?a) = volume (state a)" "progress_ms (state ?a) = progress_ms (state a)"
    "duration_ms (state ?a) = duration_ms (state a)"
    by (subst st, simp)+
  with none st dev show "fst (fetch_state c) = None \<and>
     state ?a = (state a)\<lparr>latest_fetch := latest_fetch (state ?a)\<rparr> \<and>
     track (state ?a) = track (state a) \<and>
     is_playing (state ?a) = is_playing (state a) \<and>
     shuffle (state ?a) = shuffle (state a) \<and>
     repeat (state ?a) = repeat (state a) \<and>
     volume (state ?a) = volume (state a) \<and>
     progress_ms (state ?a) = progress_ms (state a) \<and>
     duration_ms (state ?a) = duration_ms (state a) \<and>
     session_device_id ?a = session_device_id a"
    by blast
qed

theorem fetch_state_no_track_keeps_state_witness:
  "fst (fetch_state failing_client) = None \<and>
   state (fetch_phase failing_client 100 101 started_app) =
     (state started_app)\<lparr>latest_fetch := Some 101\<rparr>"
proof -
  have cur: "current_playing failing_client = Inl (RemoteError ''timeout'')"
    and rec: "recently_played failing_client = Inl (RemoteError ''timeout'')"
    by (simp_all add: failing_client_def)
  have due: "fetch_due 100 (state started_app)"
    by (simp add: fetch_due_def started_app_def State_init_def)
  have "latest_fetch (state (fetch_phase failing_client 100 101 started_app)) = Some 101"
    using due
    by (cases "fetch_state failing_client")
       (auto simp: fetch_phase_def check_liked_def emit_def store_fetched_def Let_def
             split: option.splits sum.splits)
  with fetch_state_no_track_keeps_state
         [of failing_client "RemoteError ''timeout''" "RemoteError ''timeout''" 100 101 started_app]
       cur rec
  show ?thesis by simp
qed

section \<open>The display loop: progress and dimming\<close>




text \<open>
  C7 fails on the program at a reachable input. The state is dimmed and the track is
  playing; at the first await of the display-loop iteration at 105 the input task
  dispatches a press of Next, which records the activity and clears \<^verbatim>\<open>latest_fetch\<close>. The
  progress estimate then raises \<^verbatim>\<open>TypeError\<close> before the inactivity check is reached, and
  the exception ends the display loop: the inactivity condition is false, the state is
  still dimmed, and the backlight has not been set.
\<close>

theorem dimmer_stuck_after_press:
  "is_dimmed (state dimmed_app) \<and>
   fst (display_loop [(reliable_client, readings_at 105, press_next 105, [], []),
                      (reliable_client, readings_at 106, [], [], [])] (None, dimmed_app))
     = Some TypeError \<and>
   last_activity (state (snd (snd
     (display_loop [(reliable_client, readings_at 105, press_next 105, [], []),
                    (reliable_client, readings_at 106, [], [], [])] (None, dimmed_app)))))
     = 105 \<and>
   \<not> at_dim (readings_at 105) - 105 > INACTIVITY_TIMEOUT \<and>
   is_dimmed (state (snd (snd
     (display_loop [(reliable_client, readings_at 105, press_next 105, [], []),
                    (reliable_client, readings_at 106, [], [], [])] (None, dimmed_app))))) \<and>
   backlights (trace (snd (snd
     (display_loop [(reliable_client, readings_at 105, press_next 105, [], []),
                    (reliable_client, readings_at 106, [], [], [])] (None, dimmed_app)))))
     = []"
  by (simp add: display_tick_def fetch_phase_def fetch_due_def INTERVAL_def
      progress_phase_def INACTIVITY_TIMEOUT_def
      dimmed_app_def playing_app_def started_app_def example_track_def press_next_def
      readings_at_def reliable_client_def touch_at_def
      touch_tick_def setup_buttons_def ControlButton_init_def State_init_def
      is_pressed_def update_show_controls_def dispatch_def
      next_track_def send_def and_then_def emit_def Let_def)

end
